theory Spec2Isabelle
  imports Complex_Main
begin

section \<open>Upload page: data model\<close>

text \<open>
  The upload page (\<^verbatim>\<open>UploadPage\<close>) keeps its session in React state cells and one
  ref. The model is a record with one field per cell, transformed by one function per
  handler. Calls on collaborators that are not part of the page (the notification
  store, the router, the \<^verbatim>\<open>createVideo\<close> client and the methods of the socket it
  returns) are appended, in call order, to the field \<open>effects\<close>.
\<close>

text \<open>A browser \<^verbatim>\<open>File\<close>: its MIME type and its size in bytes.\<close>

record js_file =
  file_type :: string
  file_size :: nat

text \<open>
  The module \<^verbatim>\<open>common/constants\<close> is not part of the sources at hand; the
  constants the page reads are taken as a parameter.
\<close>

record constants =
  captionMaxLen :: nat
  musicMaxLen :: nat
  tagsMaxLen :: nat
  videoSizeLimit :: nat

text \<open>The formik values of the form (\<^verbatim>\<open>initialValues\<close> are three empty strings).\<close>

record form_values =
  caption :: string
  music :: string
  tags :: string

text \<open>The second argument of \<^verbatim>\<open>createVideo\<close>: \<^verbatim>\<open>{...values, username: username!}\<close>.\<close>

record video_info = form_values +
  info_username :: "string option"

datatype form_entry = Text string | Blob js_file

type_synonym form_data = "(string \<times> form_entry) list"

text \<open>A JavaScript \<^verbatim>\<open>Error\<close>, of which the page reads the message only.\<close>

datatype error = Error (err_message: string)

text \<open>A socket is known to the page by its identity only.\<close>

datatype socket = Socket nat

record notification =
  ntype :: string
  message :: string

datatype effect =
    ShowNotification notification
  | Navigate string
  | CreateVideo form_data video_info
  | Emit socket string
  | Disconnect socket

record compression_progress =
  percent :: int
  eta :: string

record upload_page =
  socketRef :: "socket option"
  isLoading :: bool
  videoFile :: "js_file option"
  uploadProgress :: int
  compressionProgress :: compression_progress
  showProgressBox :: bool
  username :: "string option"
  token :: "string option"
  effects :: "effect list"

text \<open>
  The handler \<^verbatim>\<open>progressFn(type, progress)\<close> takes a kind and a payload of type
  \<^verbatim>\<open>any\<close>. The payload is typed here by the state cell it is stored in: a number
  for \<^verbatim>\<open>"upload"\<close>, an object \<^verbatim>\<open>{percent, eta}\<close> for the other kind.
\<close>

datatype progress =
    Upload int
  | Compress compression_progress

text \<open>
  The outcome of \<^verbatim>\<open>await createVideo(formData, info, progressFn, completeFn, errFn)\<close>:
  the client is not part of the sources at hand and is a parameter. It either throws
  (\<open>Inl\<close>) or returns the socket (\<open>Inr\<close>).
\<close>

type_synonym create_video = "form_data \<Rightarrow> video_info \<Rightarrow> error + socket"

definition initial_page :: "string option \<Rightarrow> string option \<Rightarrow> upload_page" where
  "initial_page u t =
     \<lparr>socketRef = None, isLoading = False, videoFile = None, uploadProgress = 0,
      compressionProgress = \<lparr>percent = 0, eta = ''''\<rparr>, showProgressBox = False,
      username = u, token = t, effects = []\<rparr>"

section \<open>Upload page: handlers\<close>

definition perform :: "effect \<Rightarrow> upload_page \<Rightarrow> upload_page" where
  "perform e s = s\<lparr>effects := effects s @ [e]\<rparr>"

definition progressFn :: "progress \<Rightarrow> upload_page \<Rightarrow> upload_page" where
  "progressFn p s =
     (case p of
        Upload n \<Rightarrow> s\<lparr>uploadProgress := n\<rparr>
      | Compress c \<Rightarrow> s\<lparr>compressionProgress := c\<rparr>)"

definition cancelFn :: "upload_page \<Rightarrow> upload_page" where
  "cancelFn s =
     (let s1 = (case socketRef s of
                  None \<Rightarrow> s
                | Some sock \<Rightarrow>
                    (perform (Disconnect sock) (perform (Emit sock ''cancelCompression'') s))
                      \<lparr>socketRef := None\<rparr>)
      in s1\<lparr>showProgressBox := False, isLoading := False, uploadProgress := 0,
            compressionProgress := \<lparr>percent = 0, eta = ''''\<rparr>\<rparr>)"

definition completeFn :: "string \<Rightarrow> upload_page \<Rightarrow> upload_page" where
  "completeFn videoId s = perform (Navigate (''/video/'' @ videoId)) s"

definition errFn :: "error \<Rightarrow> upload_page \<Rightarrow> upload_page" where
  "errFn err s =
     cancelFn
       (perform
          (ShowNotification
             \<lparr>ntype = ''error'', message = ''Compression error: '' @ err_message err\<rparr>)
          s)"

text \<open>
  \<^verbatim>\<open>FormData.append\<close> stores a value that is not a blob as its string; the
  non-null assertions \<^verbatim>\<open>username!\<close> and \<^verbatim>\<open>token!\<close> check nothing at run time.
\<close>

definition form_text :: "string option \<Rightarrow> string" where
  "form_text x = (case x of None \<Rightarrow> ''undefined'' | Some t \<Rightarrow> t)"

text \<open>
  The body of the \<^verbatim>\<open>try\<close> block of \<^verbatim>\<open>onSubmit\<close>. A \<^verbatim>\<open>throw\<close> is \<open>Inl\<close>, with
  the error and the state as it is when the error is thrown.
\<close>

definition submit_try ::
  "constants \<Rightarrow> create_video \<Rightarrow> form_values \<Rightarrow> upload_page \<Rightarrow>
   (error \<times> upload_page) + upload_page" where
  "submit_try c createVideo vals s =
     (case videoFile s of
        None \<Rightarrow> Inl (Error ''Invalid video'', s)
      | Some f \<Rightarrow>
          if file_type f \<noteq> ''video/mp4'' then Inl (Error ''Invalid video'', s)
          else if file_size f > videoSizeLimit c then Inl (Error ''File too large'', s)
          else
            let formData =
                  [(''caption'', Text (caption vals)),
                   (''tags'', Text (tags vals)),
                   (''music'', Text (music vals)),
                   (''username'', Text (form_text (username s))),
                   (''token'', Text (form_text (token s))),
                   (''video'', Blob f)];
                info = \<lparr>caption = caption vals, music = music vals, tags = tags vals,
                        info_username = username s\<rparr>;
                s1 = s\<lparr>showProgressBox := True\<rparr>;
                s2 = perform (CreateVideo formData info) s1
            in (case createVideo formData info of
                  Inl err \<Rightarrow> Inl (err, s2)
                | Inr sock \<Rightarrow> Inr (s2\<lparr>socketRef := Some sock\<rparr>)))"

definition onSubmit ::
  "constants \<Rightarrow> create_video \<Rightarrow> form_values \<Rightarrow> upload_page \<Rightarrow> upload_page" where
  "onSubmit c createVideo vals s =
     (case submit_try c createVideo vals (s\<lparr>isLoading := True\<rparr>) of
        Inr s' \<Rightarrow> s'
      | Inl (err, s') \<Rightarrow>
          perform (ShowNotification \<lparr>ntype = ''error'', message = err_message err\<rparr>)
            (s'\<lparr>isLoading := False\<rparr>))"

text \<open>The file input: \<^verbatim>\<open>onChange={e => setVideoFile(e.target.files?.[0])}\<close>.\<close>

definition setVideoFile :: "js_file option \<Rightarrow> upload_page \<Rightarrow> upload_page" where
  "setVideoFile f s = s\<lparr>videoFile := f\<rparr>"

section \<open>Upload page: the session as a sequence of events\<close>

text \<open>
  The yup schema of the form: caption and tags are required, and each field has a
  maximal length.
\<close>

definition validationSchema :: "constants \<Rightarrow> form_values \<Rightarrow> bool" where
  "validationSchema c vals \<longleftrightarrow>
     caption vals \<noteq> [] \<and> length (caption vals) \<le> captionMaxLen c \<and>
     length (music vals) \<le> musicMaxLen c \<and>
     tags vals \<noteq> [] \<and> length (tags vals) \<le> tagsMaxLen c"

definition initialValues :: form_values where
  "initialValues = \<lparr>caption = [], music = [], tags = []\<rparr>"

text \<open>
  The submit button is rendered with
  \<^verbatim>\<open>disabled={!formik.dirty || !formik.isValid || !videoFile || isLoading}\<close>.
\<close>

definition submit_enabled :: "constants \<Rightarrow> form_values \<Rightarrow> upload_page \<Rightarrow> bool" where
  "submit_enabled c vals s \<longleftrightarrow>
     vals \<noteq> initialValues \<and> validationSchema c vals \<and> videoFile s \<noteq> None \<and> \<not> isLoading s"

text \<open>
  \<open>onSubmit\<close> is an \<^verbatim>\<open>async\<close> function with one \<^verbatim>\<open>await\<close>: it runs up to the call
  of \<^verbatim>\<open>createVideo\<close>, to which it hands \<open>progressFn\<close>, \<open>completeFn\<close> and \<open>errFn\<close>,
  and is resumed with the answer of the call, while other handlers may run in
  between. \<open>onSubmit_start\<close> is the part before the \<^verbatim>\<open>await\<close>: it gives the state
  and, when \<^verbatim>\<open>createVideo\<close> is called, the arguments of the call. \<open>onSubmit_resume\<close>
  is the part after it: the assignment to \<^verbatim>\<open>socketRef.current\<close> when the call
  returns (\<open>Inr\<close>), the \<^verbatim>\<open>catch\<close> block when it throws (\<open>Inl\<close>).
\<close>

definition catch_block :: "error \<Rightarrow> upload_page \<Rightarrow> upload_page" where
  "catch_block err s =
     perform (ShowNotification \<lparr>ntype = ''error'', message = err_message err\<rparr>)
       (s\<lparr>isLoading := False\<rparr>)"

definition onSubmit_start ::
  "constants \<Rightarrow> form_values \<Rightarrow> upload_page \<Rightarrow> upload_page \<times> (form_data \<times> video_info) option"
  where
  "onSubmit_start c vals s =
     (let s0 = s\<lparr>isLoading := True\<rparr> in
      case videoFile s0 of
        None \<Rightarrow> (catch_block (Error ''Invalid video'') s0, None)
      | Some f \<Rightarrow>
          if file_type f \<noteq> ''video/mp4'' then (catch_block (Error ''Invalid video'') s0, None)
          else if file_size f > videoSizeLimit c
          then (catch_block (Error ''File too large'') s0, None)
          else
            let formData =
                  [(''caption'', Text (caption vals)),
                   (''tags'', Text (tags vals)),
                   (''music'', Text (music vals)),
                   (''username'', Text (form_text (username s0))),
                   (''token'', Text (form_text (token s0))),
                   (''video'', Blob f)];
                info = \<lparr>caption = caption vals, music = music vals, tags = tags vals,
                        info_username = username s0\<rparr>;
                s1 = s0\<lparr>showProgressBox := True\<rparr>
            in (perform (CreateVideo formData info) s1, Some (formData, info)))"

definition onSubmit_resume :: "error + socket \<Rightarrow> upload_page \<Rightarrow> upload_page" where
  "onSubmit_resume answer s =
     (case answer of
        Inl err \<Rightarrow> catch_block err s
      | Inr sock \<Rightarrow> s\<lparr>socketRef := Some sock\<rparr>)"

text \<open>
  A session is the page together with the number of calls of \<^verbatim>\<open>createVideo\<close> that
  have not answered yet, each of which holds a suspended \<open>onSubmit\<close>.
\<close>

record session =
  page :: upload_page
  pending :: nat

definition initial_session :: "string option \<Rightarrow> string option \<Rightarrow> session" where
  "initial_session u t = \<lparr>page = initial_page u t, pending = 0\<rparr>"

text \<open>
  What can happen to the page: the user selects a file, submits the form or invokes
  cancel; a pending call of \<^verbatim>\<open>createVideo\<close> answers; and one of the callbacks handed
  to \<^verbatim>\<open>createVideo\<close> is invoked with a progress, completion or error event. A
  submission through a disabled button does nothing, and an answer needs a pending
  call. The handlers test nothing before they run, so the callbacks and cancel are
  taken whenever they come: before the answer of \<^verbatim>\<open>createVideo\<close>, after a
  cancellation, with or without a channel.
\<close>

datatype event =
    SelectFile "js_file option"
  | SubmitForm form_values
  | CreateVideoAnswer "error + socket"
  | ProgressEv progress
  | CompleteEv string
  | ErrorEv error
  | CancelClick

definition dispatch :: "constants \<Rightarrow> session \<Rightarrow> event \<Rightarrow> session" where
  "dispatch c w ev =
     (case ev of
        SelectFile f \<Rightarrow> w\<lparr>page := setVideoFile f (page w)\<rparr>
      | SubmitForm vals \<Rightarrow>
          if submit_enabled c vals (page w)
          then (case onSubmit_start c vals (page w) of
                  (s', None) \<Rightarrow> w\<lparr>page := s'\<rparr>
                | (s', Some call) \<Rightarrow> \<lparr>page = s', pending = Suc (pending w)\<rparr>)
          else w
      | CreateVideoAnswer answer \<Rightarrow>
          if pending w = 0 then w
          else \<lparr>page = onSubmit_resume answer (page w), pending = pending w - 1\<rparr>
      | ProgressEv p \<Rightarrow> w\<lparr>page := progressFn p (page w)\<rparr>
      | CompleteEv videoId \<Rightarrow> w\<lparr>page := completeFn videoId (page w)\<rparr>
      | ErrorEv err \<Rightarrow> w\<lparr>page := errFn err (page w)\<rparr>
      | CancelClick \<Rightarrow> w\<lparr>page := cancelFn (page w)\<rparr>)"

fun run :: "constants \<Rightarrow> session \<Rightarrow> event list \<Rightarrow> session" where
  "run c w [] = w"
| "run c w (ev # evs) = run c (dispatch c w ev) evs"

text \<open>
  A file as the data model of the upload session wants it: of type \<^verbatim>\<open>video/mp4\<close>
  and no larger than the limit.
\<close>

definition acceptable :: "constants \<Rightarrow> js_file option \<Rightarrow> bool" where
  "acceptable c x =
     (case x of
        None \<Rightarrow> False
      | Some f \<Rightarrow> file_type f = ''video/mp4'' \<and> file_size f \<le> videoSizeLimit c)"

text \<open>
  A session in flight, in the words of the invariant of the data model: a submission
  has been initiated and has not yet terminated, where completion, cancellation and
  an error (of the channel or of the call that opens it) terminate it. A submission
  is initiated when the enabled form is submitted with an acceptable file. The flag
  \<open>b\<close> is the notion before the events, \<open>w\<close> the session before them.
\<close>

fun in_flight :: "constants \<Rightarrow> bool \<Rightarrow> session \<Rightarrow> event list \<Rightarrow> bool" where
  "in_flight c b w [] = b"
| "in_flight c b w (ev # evs) =
     in_flight c
       (case ev of
          SelectFile f \<Rightarrow> b
        | SubmitForm vals \<Rightarrow>
            if submit_enabled c vals (page w) then acceptable c (videoFile (page w)) else b
        | CreateVideoAnswer answer \<Rightarrow>
            if pending w = 0 then b else (case answer of Inl err \<Rightarrow> False | Inr sock \<Rightarrow> b)
        | ProgressEv p \<Rightarrow> b
        | CompleteEv videoId \<Rightarrow> False
        | ErrorEv err \<Rightarrow> False
        | CancelClick \<Rightarrow> False)
       (dispatch c w ev) evs"

text \<open>
  Whether the page holds a channel, told from the events: a pending call of
  \<^verbatim>\<open>createVideo\<close> has returned a socket, and neither a cancellation nor an error
  event has come since. A call that throws, a completion and every other event
  leave the flag as it is.
\<close>

fun channel_held :: "constants \<Rightarrow> bool \<Rightarrow> session \<Rightarrow> event list \<Rightarrow> bool" where
  "channel_held c b w [] = b"
| "channel_held c b w (ev # evs) =
     channel_held c
       (case ev of
          SelectFile f \<Rightarrow> b
        | SubmitForm vals \<Rightarrow> b
        | CreateVideoAnswer answer \<Rightarrow>
            if pending w = 0 then b else (case answer of Inl err \<Rightarrow> b | Inr sock \<Rightarrow> True)
        | ProgressEv p \<Rightarrow> b
        | CompleteEv videoId \<Rightarrow> b
        | ErrorEv err \<Rightarrow> False
        | CancelClick \<Rightarrow> False)
       (dispatch c w ev) evs"

text \<open>
  The values a sequence of progress events leaves in the two cells, one after each
  event, starting with the value held before the first event; and the values the
  events of each kind carry.
\<close>

fun stored_upload :: "upload_page \<Rightarrow> progress list \<Rightarrow> int list" where
  "stored_upload s [] = [uploadProgress s]"
| "stored_upload s (p # ps) = uploadProgress s # stored_upload (progressFn p s) ps"

fun stored_percent :: "upload_page \<Rightarrow> progress list \<Rightarrow> int list" where
  "stored_percent s [] = [percent (compressionProgress s)]"
| "stored_percent s (p # ps) =
     percent (compressionProgress s) # stored_percent (progressFn p s) ps"

fun received_upload :: "progress list \<Rightarrow> int list" where
  "received_upload [] = []"
| "received_upload (Upload n # ps) = n # received_upload ps"
| "received_upload (Compress c # ps) = received_upload ps"

fun received_compress :: "progress list \<Rightarrow> compression_progress list" where
  "received_compress [] = []"
| "received_compress (Upload n # ps) = received_compress ps"
| "received_compress (Compress c # ps) = c # received_compress ps"

fun progress_all :: "upload_page \<Rightarrow> progress list \<Rightarrow> upload_page" where
  "progress_all s [] = s"
| "progress_all s (p # ps) = progress_all (progressFn p s) ps"

section \<open>Video tag: data model and handlers\<close>

text \<open>
  The component \<^verbatim>\<open>VideoTag\<close> drives one \<^verbatim>\<open>HTMLVideoElement\<close>. Of the element the
  model keeps the attributes the handlers read or write. The element is the browser's:
  its methods follow the HTML standard, where \<^verbatim>\<open>pause()\<close> on a playing element sets
  \<^verbatim>\<open>paused\<close> and fires \<^verbatim>\<open>pause\<close>, \<^verbatim>\<open>play()\<close> on a paused element clears
  \<^verbatim>\<open>paused\<close> and fires \<^verbatim>\<open>play\<close>, and either does nothing on an element already
  in that state. The events reach the listeners of the component before the next
  gesture of the user. Every call on the element is appended to \<open>commands\<close>.
\<close>

record video_el =
  paused :: bool
  currentTime :: real
  muted :: bool

datatype command = Play | Pause | SetCurrentTime real | SetMuted bool

record video_tag =
  videoRef :: "video_el option"
  wasPlaying :: bool
  isMuted :: bool
  isPlaying :: bool
  showSpinner :: bool
  showControls :: bool
  curTime :: real
  commands :: "command list"

definition toggleIsPlayingOn :: "video_tag \<Rightarrow> video_tag" where
  "toggleIsPlayingOn s = s\<lparr>isPlaying := True\<rparr>"

definition toggleIsPlayingOff :: "video_tag \<Rightarrow> video_tag" where
  "toggleIsPlayingOff s = s\<lparr>isPlaying := False\<rparr>"

text \<open>The calls \<^verbatim>\<open>vid.pause()\<close> and \<^verbatim>\<open>vid.play()\<close> on the element \<open>v\<close> of the ref.\<close>

definition media_pause :: "video_el \<Rightarrow> video_tag \<Rightarrow> video_tag" where
  "media_pause v s =
     (let s1 = s\<lparr>commands := commands s @ [Pause]\<rparr>
      in if paused v then s1
         else toggleIsPlayingOff (s1\<lparr>videoRef := Some (v\<lparr>paused := True\<rparr>)\<rparr>))"

definition media_play :: "video_el \<Rightarrow> video_tag \<Rightarrow> video_tag" where
  "media_play v s =
     (let s1 = s\<lparr>commands := commands s @ [Play]\<rparr>
      in if paused v then toggleIsPlayingOn (s1\<lparr>videoRef := Some (v\<lparr>paused := False\<rparr>)\<rparr>)
         else s1)"

text \<open>
  The listener of the element's \<^verbatim>\<open>click\<close> event. It is registered by an effect that
  returns at once when the ref is empty.
\<close>

definition handleClick :: "video_tag \<Rightarrow> video_tag" where
  "handleClick s =
     (case videoRef s of
        None \<Rightarrow> s
      | Some v \<Rightarrow> if \<not> paused v then media_pause v s else s)"

definition handlePlayPause :: "video_tag \<Rightarrow> video_tag" where
  "handlePlayPause s =
     (case videoRef s of
        None \<Rightarrow> s
      | Some v \<Rightarrow> if paused v then media_play v s else media_pause v s)"

definition changeTime :: "real \<Rightarrow> video_tag \<Rightarrow> video_tag" where
  "changeTime d s =
     (case videoRef s of
        None \<Rightarrow> s
      | Some v \<Rightarrow>
          s\<lparr>videoRef := Some (v\<lparr>currentTime := d\<rparr>),
            commands := commands s @ [SetCurrentTime d],
            curTime := d\<rparr>)"

text \<open>\<^verbatim>\<open>handleSeek(e)\<close>, of which \<open>etype\<close> is \<^verbatim>\<open>e.type\<close>.\<close>

definition handleSeek :: "string \<Rightarrow> video_tag \<Rightarrow> video_tag" where
  "handleSeek etype s =
     (case videoRef s of
        None \<Rightarrow> s
      | Some v \<Rightarrow>
          if etype = ''mousedown'' then media_pause v (s\<lparr>wasPlaying := isPlaying s\<rparr>)
          else if wasPlaying s then media_play v s
          else s)"

definition handleMute :: "video_tag \<Rightarrow> video_tag" where
  "handleMute s =
     (case videoRef s of
        None \<Rightarrow> s
      | Some v \<Rightarrow>
          s\<lparr>videoRef := Some (v\<lparr>muted := \<not> isMuted s\<rparr>),
            commands := commands s @ [SetMuted (\<not> isMuted s)],
            isMuted := \<not> isMuted s\<rparr>)"

text \<open>
  A seek gesture on the range input: \<^verbatim>\<open>mousedown\<close>, one \<^verbatim>\<open>change\<close> for every value
  the pointer selects, \<^verbatim>\<open>mouseup\<close>.
\<close>

fun change_times :: "real list \<Rightarrow> video_tag \<Rightarrow> video_tag" where
  "change_times [] s = s"
| "change_times (d # ds) s = change_times ds (changeTime d s)"

definition seek_gesture :: "real list \<Rightarrow> video_tag \<Rightarrow> video_tag" where
  "seek_gesture ds s =
     handleSeek ''mouseup'' (change_times ds (handleSeek ''mousedown'' s))"

text \<open>
  The component mirrors the element's state in \<open>isPlaying\<close>, which the listeners of
  \<^verbatim>\<open>play\<close> and \<^verbatim>\<open>pause\<close> keep up to date.
\<close>

definition in_sync :: "video_tag \<Rightarrow> bool" where
  "in_sync s \<longleftrightarrow> (case videoRef s of None \<Rightarrow> True | Some v \<Rightarrow> isPlaying s = (\<not> paused v))"

section \<open>Concrete inputs\<close>

definition createVideo_returns :: "socket \<Rightarrow> create_video" where
  "createVideo_returns sock formData info = Inr sock"

definition createVideo_throws :: "error \<Rightarrow> create_video" where
  "createVideo_throws err formData info = Inl err"

definition example_constants :: constants where
  "example_constants =
     \<lparr>captionMaxLen = 150, musicMaxLen = 30, tagsMaxLen = 200, videoSizeLimit = 20971520\<rparr>"

definition example_values :: form_values where
  "example_values = \<lparr>caption = ''Hello'', music = [], tags = ''#fun''\<rparr>"

definition example_mp4 :: js_file where
  "example_mp4 = \<lparr>file_type = ''video/mp4'', file_size = 10485760\<rparr>"

definition example_png :: js_file where
  "example_png = \<lparr>file_type = ''image/png'', file_size = 2048\<rparr>"

definition example_page :: upload_page where
  "example_page =
     (initial_page (Some ''ann'') (Some ''t0k3n''))\<lparr>videoFile := Some example_mp4\<rparr>"

text \<open>A page in the middle of a session, with the channel \<open>Socket 1\<close>.\<close>

definition example_active_page :: upload_page where
  "example_active_page =
     example_page\<lparr>socketRef := Some (Socket 1), isLoading := True, uploadProgress := 100,
       compressionProgress := \<lparr>percent = 40, eta = ''12s''\<rparr>, showProgressBox := True\<rparr>"

text \<open>A video tag whose element is playing at second 3.\<close>

definition example_tag :: video_tag where
  "example_tag =
     \<lparr>videoRef = Some \<lparr>paused = False, currentTime = 3, muted = False\<rparr>,
      wasPlaying = False, isMuted = False, isPlaying = True, showSpinner = False,
      showControls = True, curTime = 3, commands = []\<rparr>"

section \<open>Upload page: submission\<close>

text \<open>
  Claim C1. When the selected file is not of type \<^verbatim>\<open>video/mp4\<close> or is larger than
  \<^verbatim>\<open>videoSizeLimit\<close>, \<open>onSubmit\<close> rejects before any network activity: the one
  effect it adds is the error notification (so \<^verbatim>\<open>createVideo\<close> is not called and no
  channel is opened), the channel reference is as before, and \<open>uploadProgress\<close>,
  \<open>compressionProgress\<close> and \<open>showProgressBox\<close> are unchanged. The form is enabled
  again.
\<close>

theorem onSubmit_invalid_file_rejects:
  assumes "videoFile s = Some f"
    and "file_type f \<noteq> ''video/mp4'' \<or> file_size f > videoSizeLimit c"
  shows "effects (onSubmit c createVideo vals s) =
           effects s @
             [ShowNotification
                \<lparr>ntype = ''error'',
                 message = (if file_type f \<noteq> ''video/mp4'' then ''Invalid video''
                            else ''File too large'')\<rparr>]
         \<and> socketRef (onSubmit c createVideo vals s) = socketRef s
         \<and> uploadProgress (onSubmit c createVideo vals s) = uploadProgress s
         \<and> compressionProgress (onSubmit c createVideo vals s) = compressionProgress s
         \<and> showProgressBox (onSubmit c createVideo vals s) = showProgressBox s
         \<and> isLoading (onSubmit c createVideo vals s) = False"
  using assms by (auto simp: onSubmit_def submit_try_def perform_def)

theorem onSubmit_invalid_file_rejects_witness:
  "videoFile (example_page\<lparr>videoFile := Some example_png\<rparr>) = Some example_png
   \<and> file_type example_png \<noteq> ''video/mp4''
   \<and> effects (onSubmit example_constants (createVideo_returns (Socket 1)) example_values
        (example_page\<lparr>videoFile := Some example_png\<rparr>))
       = [ShowNotification \<lparr>ntype = ''error'', message = ''Invalid video''\<rparr>]
   \<and> showProgressBox (onSubmit example_constants (createVideo_returns (Socket 1))
        example_values (example_page\<lparr>videoFile := Some example_png\<rparr>)) = False"
  using onSubmit_invalid_file_rejects
    [of "example_page\<lparr>videoFile := Some example_png\<rparr>" example_png example_constants
        "createVideo_returns (Socket 1)" example_values]
  by (simp add: example_page_def example_png_def initial_page_def)

text \<open>
  Claim C6. When \<^verbatim>\<open>createVideo\<close> throws for a valid file, \<open>onSubmit\<close> shows the
  notification, enables the form again and leaves the channel reference as it was,
  but the progress box, shown before the call, stays shown: nothing in the
  \<^verbatim>\<open>catch\<close> block hides it.
\<close>

theorem onSubmit_createVideo_throws:
  assumes "videoFile s = Some f" and "file_type f = ''video/mp4''"
    and "file_size f \<le> videoSizeLimit c"
    and "\<And>formData info. createVideo formData info = Inl err"
  shows "showProgressBox (onSubmit c createVideo vals s) = True
       \<and> isLoading (onSubmit c createVideo vals s) = False
       \<and> socketRef (onSubmit c createVideo vals s) = socketRef s
       \<and> last (effects (onSubmit c createVideo vals s)) =
           ShowNotification \<lparr>ntype = ''error'', message = err_message err\<rparr>"
  using assms by (simp add: onSubmit_def submit_try_def perform_def Let_def)

theorem onSubmit_createVideo_throws_witness:
  "videoFile example_page = Some example_mp4
   \<and> file_type example_mp4 = ''video/mp4''
   \<and> file_size example_mp4 \<le> videoSizeLimit example_constants
   \<and> showProgressBox
       (onSubmit example_constants (createVideo_throws (Error ''Network Error''))
          example_values example_page) = True
   \<and> socketRef
       (onSubmit example_constants (createVideo_throws (Error ''Network Error''))
          example_values example_page) = None"
  using onSubmit_createVideo_throws
    [of example_page example_mp4 example_constants
        "createVideo_throws (Error ''Network Error'')" "Error ''Network Error''" example_values]
  by (simp add: example_page_def example_mp4_def example_constants_def initial_page_def
      createVideo_throws_def)

section \<open>Upload page: cancellation and errors\<close>

text \<open>
  Claim C2. With a channel open, \<open>cancelFn\<close> emits \<^verbatim>\<open>cancelCompression\<close> on that
  channel and then disconnects it, empties the channel reference, resets
  \<open>uploadProgress\<close> to 0 and \<open>compressionProgress\<close> to \<^verbatim>\<open>{percent: 0, eta: ""}\<close>,
  hides the progress box and enables the form again.
\<close>

theorem cancelFn_open_channel:
  assumes "socketRef s = Some sock"
  shows "effects (cancelFn s) = effects s @ [Emit sock ''cancelCompression'', Disconnect sock]
       \<and> socketRef (cancelFn s) = None
       \<and> uploadProgress (cancelFn s) = 0
       \<and> compressionProgress (cancelFn s) = \<lparr>percent = 0, eta = ''''\<rparr>
       \<and> showProgressBox (cancelFn s) = False
       \<and> isLoading (cancelFn s) = False"
  using assms by (simp add: cancelFn_def perform_def)

theorem cancelFn_open_channel_witness:
  "socketRef example_active_page = Some (Socket 1)
   \<and> effects (cancelFn example_active_page)
       = [Emit (Socket 1) ''cancelCompression'', Disconnect (Socket 1)]
   \<and> socketRef (cancelFn example_active_page) = None
   \<and> uploadProgress (cancelFn example_active_page) = 0
   \<and> showProgressBox (cancelFn example_active_page) = False
   \<and> isLoading (cancelFn example_active_page) = False"
  using cancelFn_open_channel [of example_active_page "Socket 1"]
  by (simp add: example_active_page_def example_page_def initial_page_def)

text \<open>
  Claim C3. \<open>cancelFn\<close> is a total function of the state (it has no failing branch:
  the socket is touched only under the test that the reference is set), and it is
  idempotent: cancelling twice is cancelling once. After it \<open>uploadProgress\<close> is 0
  and \<open>compressionProgress\<close> is \<^verbatim>\<open>{percent: 0, eta: ""}\<close>, also when no channel is
  open, in which case no effect is performed.
\<close>

theorem cancelFn_idempotent:
  "cancelFn (cancelFn s) = cancelFn s
   \<and> uploadProgress (cancelFn s) = 0
   \<and> compressionProgress (cancelFn s) = \<lparr>percent = 0, eta = ''''\<rparr>
   \<and> socketRef (cancelFn s) = None
   \<and> effects (cancelFn (s\<lparr>socketRef := None\<rparr>)) = effects s
   \<and> uploadProgress (cancelFn (s\<lparr>socketRef := None\<rparr>)) = 0
   \<and> compressionProgress (cancelFn (s\<lparr>socketRef := None\<rparr>)) = \<lparr>percent = 0, eta = ''''\<rparr>"
  by (simp add: cancelFn_def perform_def split: option.split)

text \<open>
  Claim C4. \<open>errFn\<close> first shows the notification with the error's message, then
  does what cancellation does: apart from the notification among the effects, its
  state is the state of \<open>cancelFn\<close>, with an empty channel reference, progress values
  at zero and the progress box hidden.
\<close>

theorem errFn_notifies_then_cancels:
  "effects (errFn err s) =
     effects s
       @ [ShowNotification
            \<lparr>ntype = ''error'', message = ''Compression error: '' @ err_message err\<rparr>]
       @ (case socketRef s of
            None \<Rightarrow> []
          | Some sock \<Rightarrow> [Emit sock ''cancelCompression'', Disconnect sock])
   \<and> (errFn err s)\<lparr>effects := effects (cancelFn s)\<rparr> = cancelFn s
   \<and> socketRef (errFn err s) = None
   \<and> uploadProgress (errFn err s) = 0
   \<and> compressionProgress (errFn err s) = \<lparr>percent = 0, eta = ''''\<rparr>
   \<and> showProgressBox (errFn err s) = False"
  by (simp add: errFn_def cancelFn_def perform_def split: option.split)

section \<open>Upload page: progress events\<close>

lemma set_stored_upload:
  "set (stored_upload s ps) = insert (uploadProgress s) (set (received_upload ps))"
proof (induction ps arbitrary: s)
  case Nil
  show ?case by simp
next
  case (Cons p ps)
  show ?case by (cases p) (auto simp: Cons.IH progressFn_def)
qed

lemma sorted_stored_upload:
  "sorted (stored_upload s ps) \<longleftrightarrow> sorted (uploadProgress s # received_upload ps)"
proof (induction ps arbitrary: s)
  case Nil
  show ?case by simp
next
  case (Cons p ps)
  show ?case
    by (cases p) (auto simp: Cons.IH set_stored_upload progressFn_def)
qed

lemma set_stored_percent:
  "set (stored_percent s ps) =
     insert (percent (compressionProgress s)) (percent ` set (received_compress ps))"
proof (induction ps arbitrary: s)
  case Nil
  show ?case by simp
next
  case (Cons p ps)
  show ?case by (cases p) (auto simp: Cons.IH progressFn_def)
qed

lemma sorted_stored_percent:
  "sorted (stored_percent s ps) \<longleftrightarrow>
     sorted (percent (compressionProgress s) # map percent (received_compress ps))"
proof (induction ps arbitrary: s)
  case Nil
  show ?case by simp
next
  case (Cons p ps)
  show ?case
    by (cases p) (auto simp: Cons.IH set_stored_percent progressFn_def)
qed

text \<open>
  Claim C8, as the code has it. \<open>progressFn\<close> stores the value it receives and
  compares it with nothing. So the values stored in \<open>uploadProgress\<close> over a sequence
  of progress events never decrease exactly when the values received for it, after
  the value held at the start, never decrease; and the same for the percentage of
  \<open>compressionProgress\<close>.
\<close>

theorem progress_stored_as_received:
  "(sorted (stored_upload s ps) \<longleftrightarrow> sorted (uploadProgress s # received_upload ps))
   \<and> (sorted (stored_percent s ps) \<longleftrightarrow>
        sorted (percent (compressionProgress s) # map percent (received_compress ps)))
   \<and> uploadProgress (progressFn (Upload n) s) = n
   \<and> compressionProgress (progressFn (Compress cp) s) = cp"
  by (simp add: sorted_stored_upload sorted_stored_percent progressFn_def)

text \<open>
  Claim C8 as stated fails: an upload event of 50 followed by one of 30 leaves the
  stored values 0, 50, 30, and likewise for the compression percentage.
\<close>

theorem progress_not_monotone_counterexample:
  "stored_upload example_page [Upload 50, Upload 30] = [0, 50, 30]
   \<and> \<not> sorted (stored_upload example_page [Upload 50, Upload 30])
   \<and> stored_percent example_page
        [Compress \<lparr>percent = 50, eta = ''10s''\<rparr>, Compress \<lparr>percent = 30, eta = ''20s''\<rparr>]
       = [0, 50, 30]
   \<and> \<not> sorted (stored_percent example_page
        [Compress \<lparr>percent = 50, eta = ''10s''\<rparr>, Compress \<lparr>percent = 30, eta = ''20s''\<rparr>])"
  by (simp add: example_page_def initial_page_def progressFn_def)

lemma progress_all_frame:
  "(progress_all s ps)\<lparr>uploadProgress := uploadProgress s,
      compressionProgress := compressionProgress s\<rparr> = s"
proof (induction ps arbitrary: s)
  case Nil
  show ?case by simp
next
  case (Cons p ps)
  have "(progress_all (progressFn p s) ps)
          \<lparr>uploadProgress := uploadProgress s, compressionProgress := compressionProgress s\<rparr>
        = ((progress_all (progressFn p s) ps)
            \<lparr>uploadProgress := uploadProgress (progressFn p s),
             compressionProgress := compressionProgress (progressFn p s)\<rparr>)
          \<lparr>uploadProgress := uploadProgress s, compressionProgress := compressionProgress s\<rparr>"
    by simp
  also have "\<dots> = (progressFn p s)
      \<lparr>uploadProgress := uploadProgress s, compressionProgress := compressionProgress s\<rparr>"
    by (simp only: Cons.IH)
  also have "\<dots> = s"
    by (cases p) (simp_all add: progressFn_def)
  finally show ?case by simp
qed

lemma progress_all_upload:
  "uploadProgress (progress_all s ps) = last (uploadProgress s # received_upload ps)"
proof (induction ps arbitrary: s)
  case Nil
  show ?case by simp
next
  case (Cons p ps)
  show ?case by (cases p) (simp_all add: Cons.IH progressFn_def)
qed

lemma progress_all_compress:
  "compressionProgress (progress_all s ps) =
     last (compressionProgress s # received_compress ps)"
proof (induction ps arbitrary: s)
  case Nil
  show ?case by simp
next
  case (Cons p ps)
  show ?case by (cases p) (simp_all add: Cons.IH progressFn_def)
qed

text \<open>
  Claim C9. A progress event writes the cell of its kind and nothing else: after an
  upload event, putting the old \<open>uploadProgress\<close> back gives the old state, and
  \<open>uploadProgress\<close> is the value received; the same for a compression event and
  \<open>compressionProgress\<close>. Over any interleaving of the two kinds, every other cell
  is as before, \<open>uploadProgress\<close> is the last value the upload events carried and
  \<open>compressionProgress\<close> the last value the compression events carried.
\<close>

theorem progressFn_frame:
  "(progressFn (Upload n) s)\<lparr>uploadProgress := uploadProgress s\<rparr> = s
   \<and> uploadProgress (progressFn (Upload n) s) = n
   \<and> (progressFn (Compress cp) s)\<lparr>compressionProgress := compressionProgress s\<rparr> = s
   \<and> compressionProgress (progressFn (Compress cp) s) = cp
   \<and> (progress_all s ps)\<lparr>uploadProgress := uploadProgress s,
        compressionProgress := compressionProgress s\<rparr> = s
   \<and> uploadProgress (progress_all s ps) = last (uploadProgress s # received_upload ps)
   \<and> compressionProgress (progress_all s ps) =
        last (compressionProgress s # received_compress ps)"
  by (simp add: progress_all_frame progress_all_upload progress_all_compress progressFn_def)

section \<open>Upload page: the channel reference over a session\<close>

text \<open>The two parts of \<open>onSubmit\<close> make up the whole.\<close>

lemma onSubmit_split:
  "onSubmit c createVideo vals s =
     (case onSubmit_start c vals s of
        (s', None) \<Rightarrow> s'
      | (s', Some (formData, info)) \<Rightarrow> onSubmit_resume (createVideo formData info) s')"
  by (simp add: onSubmit_def submit_try_def onSubmit_start_def onSubmit_resume_def
      catch_block_def perform_def Let_def split: option.split sum.split)

lemma socketRef_onSubmit_start: "socketRef (fst (onSubmit_start c vals s)) = socketRef s"
  by (simp add: onSubmit_start_def catch_block_def perform_def Let_def split: option.split)

lemma socketRef_onSubmit_resume:
  "socketRef (onSubmit_resume (Inl err) s) = socketRef s"
  "socketRef (onSubmit_resume (Inr sock) s) = Some sock"
  by (simp_all add: onSubmit_resume_def catch_block_def perform_def)

lemma socketRef_cancelFn: "socketRef (cancelFn s) = None"
  by (simp add: cancelFn_def perform_def split: option.split)

lemma socketRef_errFn: "socketRef (errFn err s) = None"
  by (simp add: errFn_def socketRef_cancelFn)

lemma socketRef_completeFn: "socketRef (completeFn videoId s) = socketRef s"
  by (simp add: completeFn_def perform_def)

lemma socketRef_progressFn: "socketRef (progressFn p s) = socketRef s"
  by (cases p) (simp_all add: progressFn_def)

lemma held_step:
  assumes "(socketRef (page w) \<noteq> None) = b"
  shows "(socketRef (page (dispatch c w ev)) \<noteq> None) =
           (case ev of
              SelectFile f \<Rightarrow> b
            | SubmitForm vals \<Rightarrow> b
            | CreateVideoAnswer answer \<Rightarrow>
                if pending w = 0 then b
                else (case answer of Inl err \<Rightarrow> b | Inr sock \<Rightarrow> True)
            | ProgressEv p \<Rightarrow> b
            | CompleteEv videoId \<Rightarrow> b
            | ErrorEv err \<Rightarrow> False
            | CancelClick \<Rightarrow> False)"
proof (cases ev)
  case (SelectFile f)
  with assms show ?thesis by (simp add: dispatch_def setVideoFile_def)
next
  case (SubmitForm vals)
  obtain s' call where start: "onSubmit_start c vals (page w) = (s', call)"
    by (cases "onSubmit_start c vals (page w)")
  then have "socketRef s' = socketRef (page w)"
    using socketRef_onSubmit_start [of c vals "page w"] by simp
  with assms SubmitForm start show ?thesis
    by (simp add: dispatch_def split: option.split)
next
  case (CreateVideoAnswer answer)
  with assms show ?thesis
    by (cases answer) (simp_all add: dispatch_def socketRef_onSubmit_resume)
next
  case (ProgressEv p)
  with assms show ?thesis by (simp add: dispatch_def socketRef_progressFn)
next
  case (CompleteEv videoId)
  with assms show ?thesis by (simp add: dispatch_def socketRef_completeFn)
next
  case (ErrorEv err)
  then show ?thesis by (simp add: dispatch_def socketRef_errFn)
next
  case CancelClick
  then show ?thesis by (simp add: dispatch_def socketRef_cancelFn)
qed

lemma held_run:
  "(socketRef (page w) \<noteq> None) = b \<Longrightarrow>
     (socketRef (page (run c w evs)) \<noteq> None) = channel_held c b w evs"
proof (induction evs arbitrary: b w)
  case Nil
  then show ?case by simp
next
  case (Cons ev evs)
  show ?case
    using Cons.IH [OF held_step [OF Cons.prems, where ev = ev and c = c]] by simp
qed

text \<open>
  The session reaches states in which the page holds a channel and is not loading:
  an error event that comes before the answer of \<^verbatim>\<open>createVideo\<close> resets the page,
  and the answer then stores its socket.
\<close>

lemma answer_after_error:
  "socketRef (page (run example_constants (initial_session (Some ''ann'') (Some ''t0k3n''))
      [SelectFile (Some example_mp4), SubmitForm example_values, ErrorEv (Error ''lost''),
       CreateVideoAnswer (Inr (Socket 1))])) = Some (Socket 1)
   \<and> isLoading (page (run example_constants (initial_session (Some ''ann'') (Some ''t0k3n''))
      [SelectFile (Some example_mp4), SubmitForm example_values, ErrorEv (Error ''lost''),
       CreateVideoAnswer (Inr (Socket 1))])) = False"
  by (simp add: dispatch_def setVideoFile_def submit_enabled_def validationSchema_def
      initialValues_def example_values_def example_mp4_def example_constants_def
      initial_session_def initial_page_def onSubmit_start_def onSubmit_resume_def
      catch_block_def perform_def errFn_def cancelFn_def Let_def)

text \<open>
  Claim C5, as the code has it. From the initial page, after any sequence of events,
  the channel reference is set if and only if a call of \<^verbatim>\<open>createVideo\<close> made by a
  submission has returned its socket and neither a cancellation nor an error event
  has come since. \<open>cancelFn\<close> and \<open>errFn\<close> leave the reference empty. \<open>completeFn\<close>
  navigates to the video and does nothing else, so it leaves the reference as it is.
  \<open>onSubmit\<close> leaves the reference as it is up to the call of \<^verbatim>\<open>createVideo\<close> and
  when the call throws, and stores the socket when the call returns one.
\<close>

theorem socketRef_held_until_cancel_or_error:
  "(socketRef (page (run c (initial_session u t) evs)) \<noteq> None)
      = channel_held c False (initial_session u t) evs
   \<and> socketRef (cancelFn s) = None
   \<and> socketRef (errFn err s) = None
   \<and> completeFn videoId s = s\<lparr>effects := effects s @ [Navigate (''/video/'' @ videoId)]\<rparr>
   \<and> socketRef (fst (onSubmit_start c vals s)) = socketRef s
   \<and> socketRef (onSubmit_resume (Inl err) s) = socketRef s
   \<and> socketRef (onSubmit_resume (Inr sock) s) = Some sock"
proof -
  have "(socketRef (page (initial_session u t)) \<noteq> None) = False"
    by (simp add: initial_session_def initial_page_def)
  from held_run [OF this, where c = c and evs = evs]
  show ?thesis
    by (simp add: socketRef_cancelFn socketRef_errFn socketRef_onSubmit_start
        socketRef_onSubmit_resume completeFn_def perform_def)
qed

text \<open>
  Claim C5 as stated fails at completion: after a file is selected, the form is
  submitted, \<^verbatim>\<open>createVideo\<close> returns its socket and the channel reports completion,
  the session has reached a terminal outcome and the channel reference is still
  set. It fails before the answer of \<^verbatim>\<open>createVideo\<close> too: the submission has been
  initiated and the channel reference is still empty.
\<close>

theorem socketRef_after_completion_counterexample:
  "in_flight example_constants False (initial_session (Some ''ann'') (Some ''t0k3n''))
      [SelectFile (Some example_mp4), SubmitForm example_values,
       CreateVideoAnswer (Inr (Socket 1)), CompleteEv ''42''] = False
   \<and> socketRef (page (run example_constants (initial_session (Some ''ann'') (Some ''t0k3n''))
        [SelectFile (Some example_mp4), SubmitForm example_values,
         CreateVideoAnswer (Inr (Socket 1)), CompleteEv ''42'']))
       = Some (Socket 1)
   \<and> socketRef (completeFn ''42'' example_active_page) = Some (Socket 1)
   \<and> in_flight example_constants False (initial_session (Some ''ann'') (Some ''t0k3n''))
        [SelectFile (Some example_mp4), SubmitForm example_values] = True
   \<and> socketRef (page (run example_constants (initial_session (Some ''ann'') (Some ''t0k3n''))
        [SelectFile (Some example_mp4), SubmitForm example_values]))
       = None"
  by (simp add: dispatch_def setVideoFile_def submit_enabled_def validationSchema_def
      initialValues_def example_values_def example_mp4_def example_constants_def
      initial_session_def initial_page_def onSubmit_start_def onSubmit_resume_def
      catch_block_def perform_def completeFn_def acceptable_def Let_def
      example_active_page_def example_page_def)

section \<open>Video tag: seeking and clicking\<close>

lemma change_times_keeps:
  "videoRef s = Some v \<Longrightarrow>
     videoRef (change_times ds s) = Some (v\<lparr>currentTime := last (currentTime v # ds)\<rparr>)
     \<and> wasPlaying (change_times ds s) = wasPlaying s
     \<and> isPlaying (change_times ds s) = isPlaying s"
proof (induction ds arbitrary: s v)
  case Nil
  then show ?case by simp
next
  case (Cons d ds)
  have "videoRef (changeTime d s) = Some (v\<lparr>currentTime := d\<rparr>)"
    using Cons.prems by (simp add: changeTime_def)
  from Cons.IH [OF this] show ?case
    using Cons.prems by (simp add: changeTime_def)
qed

text \<open>
  The handlers keep the mirror \<open>isPlaying\<close> in step with the element.
\<close>

lemma in_sync_handlers:
  assumes "in_sync s"
  shows "in_sync (handleSeek etype s)" and "in_sync (changeTime d s)"
    and "in_sync (handleClick s)" and "in_sync (handlePlayPause s)"
    and "in_sync (handleMute s)"
  using assms
  by (auto simp: in_sync_def handleSeek_def changeTime_def handleClick_def
      handlePlayPause_def handleMute_def media_pause_def media_play_def
      toggleIsPlayingOn_def toggleIsPlayingOff_def Let_def split: option.splits)

text \<open>
  Claim C7. On a video tag with its element, \<^verbatim>\<open>mousedown\<close> on the seek bar records
  in \<open>wasPlaying\<close> whether playback was active (\<open>isPlaying\<close>) and pauses the element;
  a change of the seek bar sets \<open>currentTime\<close> (and its mirror \<open>curTime\<close>) to the
  value selected; and after \<^verbatim>\<open>mouseup\<close> the element plays if and only if playback
  was active at \<^verbatim>\<open>mousedown\<close>, at the last time selected. Where the mirror agrees
  with the element at \<^verbatim>\<open>mousedown\<close>, the element ends playing or paused as it began.
\<close>

theorem seek_gesture_resumes:
  assumes "videoRef s = Some v"
  shows "wasPlaying (handleSeek ''mousedown'' s) = isPlaying s
       \<and> commands (handleSeek ''mousedown'' s) = commands s @ [Pause]
       \<and> map_option paused (videoRef (handleSeek ''mousedown'' s)) = Some True
       \<and> map_option currentTime (videoRef (changeTime d s)) = Some d
       \<and> curTime (changeTime d s) = d
       \<and> map_option paused (videoRef (seek_gesture ds s)) = Some (\<not> isPlaying s)
       \<and> map_option currentTime (videoRef (seek_gesture ds s))
           = Some (last (currentTime v # ds))
       \<and> (in_sync s \<longrightarrow> map_option paused (videoRef (seek_gesture ds s)) = Some (paused v))"
proof -
  let ?s1 = "handleSeek ''mousedown'' s"
  have s1: "videoRef ?s1 = Some (v\<lparr>paused := True\<rparr>) \<and> wasPlaying ?s1 = isPlaying s
      \<and> commands ?s1 = commands s @ [Pause]"
    using assms by (simp add: handleSeek_def media_pause_def toggleIsPlayingOff_def Let_def)
  let ?s2 = "change_times ds ?s1"
  have s2: "videoRef ?s2 = Some (v\<lparr>paused := True, currentTime := last (currentTime v # ds)\<rparr>)
      \<and> wasPlaying ?s2 = isPlaying s"
    using change_times_keeps [of ?s1 "v\<lparr>paused := True\<rparr>" ds] s1 by simp
  have s3: "videoRef (seek_gesture ds s)
      = Some (v\<lparr>paused := \<not> isPlaying s, currentTime := last (currentTime v # ds)\<rparr>)"
    using s2 unfolding seek_gesture_def
    by (simp add: handleSeek_def media_play_def toggleIsPlayingOn_def Let_def)
  show ?thesis
    using s1 s3 assms by (simp add: changeTime_def in_sync_def)
qed

theorem seek_gesture_resumes_witness:
  "videoRef example_tag = Some \<lparr>paused = False, currentTime = 3, muted = False\<rparr>
   \<and> in_sync example_tag
   \<and> map_option paused (videoRef (seek_gesture [5, 7] example_tag)) = Some False
   \<and> map_option currentTime (videoRef (seek_gesture [5, 7] example_tag)) = Some 7"
  using seek_gesture_resumes
    [of example_tag "\<lparr>paused = False, currentTime = 3, muted = False\<rparr>" 0 "[5, 7]"]
  by (simp add: example_tag_def in_sync_def)

text \<open>
  Claim C10. The click listener of the video element issues \<^verbatim>\<open>pause()\<close> when the
  element is not paused and issues nothing, changing nothing, when it is paused (or
  when there is no element). After a click the element is paused, and no \<^verbatim>\<open>play()\<close>
  is among the commands the click issues.
\<close>

theorem handleClick_only_pauses:
  "commands (handleClick s) =
     commands s @ (case videoRef s of
                     None \<Rightarrow> []
                   | Some v \<Rightarrow> if paused v then [] else [Pause])
   \<and> map_option paused (videoRef (handleClick s)) = map_option (\<lambda>v. True) (videoRef s)
   \<and> handleClick (s\<lparr>videoRef := Some (v\<lparr>paused := True\<rparr>)\<rparr>)
       = s\<lparr>videoRef := Some (v\<lparr>paused := True\<rparr>)\<rparr>
   \<and> Play \<notin> set (drop (length (commands s)) (commands (handleClick s)))"
  by (simp add: handleClick_def media_pause_def toggleIsPlayingOff_def Let_def
      split: option.split)

end
